theory Spec2Isabelle
  imports Main "HOL-Library.Word"
begin

unbundle bit_operations_syntax

section \<open>Kernel versions\<close>

text \<open>
  \<^verbatim>\<open>type Version uint32\<close>: a kernel version packed as
  \<open>(major << 16) + (minor << 8) + patch\<close>.
\<close>

type_synonym Version = "32 word"

subsection \<open>Decimal text\<close>

text \<open>
  The \<^verbatim>\<open>%d\<close> verb of \<^verbatim>\<open>fmt.Sprintf\<close> on an unsigned operand: the decimal digits,
  most significant first, no sign and no padding.
\<close>

definition digit_char :: "nat \<Rightarrow> char" where
  "digit_char d = char_of (48 + d)"

definition is_digit :: "char \<Rightarrow> bool" where
  "is_digit c = (48 \<le> (of_char c :: nat) \<and> (of_char c :: nat) \<le> 57)"

definition digit_val :: "char \<Rightarrow> nat" where
  "digit_val c = of_char c - 48"

function fmt_dec :: "nat \<Rightarrow> string" where
  "fmt_dec n = (if n < 10 then [digit_char n]
                else fmt_dec (n div 10) @ [digit_char (n mod 10)])"
  by pat_completeness auto
termination
  by (relation "measure id") auto

declare fmt_dec.simps [simp del]

text \<open>
  \<^verbatim>\<open>strconv.ParseUint(s, 10, bitSize)\<close>. The result is a pair as in Go: on a syntax
  error the value is 0, on a range error it is the largest value of the bit size, and the
  loop returns at the first offending byte. The accumulator is a \<^verbatim>\<open>uint64\<close>; the
  wrap-around of \<open>n + d\<close> is written out.
\<close>

datatype num_error = ErrSyntax | ErrRange

definition cutoff10 :: nat where
  "cutoff10 = (2 ^ 64 - 1) div 10 + 1"

fun ParseUint_loop :: "nat \<Rightarrow> string \<Rightarrow> nat \<Rightarrow> nat \<times> num_error option" where
  "ParseUint_loop maxVal [] n = (n, None)"
| "ParseUint_loop maxVal (c # cs) n =
     (if \<not> is_digit c then (0, Some ErrSyntax)
      else if n \<ge> cutoff10 then (maxVal, Some ErrRange)
      else (let m = n * 10; n1 = (m + digit_val c) mod 2 ^ 64
            in if n1 < m \<or> n1 > maxVal then (maxVal, Some ErrRange)
               else ParseUint_loop maxVal cs n1))"

definition ParseUint :: "string \<Rightarrow> nat \<Rightarrow> nat \<times> num_error option" where
  "ParseUint s bitSize =
     (if s = [] then (0, Some ErrSyntax) else ParseUint_loop (2 ^ bitSize - 1) s 0)"

subsection \<open>Scanning: \<^verbatim>\<open>fmt.Sscanf\<close>\<close>

text \<open>
  The scanner of package \<^verbatim>\<open>fmt\<close> reads runes. \<open>space_width s\<close> is the number of
  bytes of the space rune that \<open>s\<close> starts with (its UTF-8 encoding), 0 when \<open>s\<close> does
  not start with a space: the runes U+0009 to U+000D, U+0020, U+0085, U+00A0, U+1680,
  U+2000 to U+200A, U+2028, U+2029, U+202F, U+205F and U+3000.
\<close>

definition space_width :: "string \<Rightarrow> nat" where
  "space_width s =
     (case map of_char (take 3 s) :: nat list of
        [] \<Rightarrow> 0
      | b0 # r \<Rightarrow>
          if (9 \<le> b0 \<and> b0 \<le> 13) \<or> b0 = 32 then 1
          else (case r of
                  [] \<Rightarrow> 0
                | b1 # r' \<Rightarrow>
                    if b0 = 0xC2 \<and> (b1 = 0x85 \<or> b1 = 0xA0) then 2
                    else (case r' of
                            [] \<Rightarrow> 0
                          | b2 # _ \<Rightarrow>
                              if (b0 = 0xE1 \<and> b1 = 0x9A \<and> b2 = 0x80)
                                 \<or> (b0 = 0xE2 \<and> b1 = 0x80
                                      \<and> ((0x80 \<le> b2 \<and> b2 \<le> 0x8A) \<or> b2 = 0xA8 \<or> b2 = 0xA9 \<or> b2 = 0xAF))
                                 \<or> (b0 = 0xE2 \<and> b1 = 0x81 \<and> b2 = 0x9F)
                                 \<or> (b0 = 0xE3 \<and> b1 = 0x80 \<and> b2 = 0x80)
                              then 3 else 0)))"

datatype scan_error =
    ErrEOF
  | ErrUnexpectedEOF
  | ErrUnexpectedNewline
  | ErrNewlineInInput
  | ErrExpectedSpace
  | ErrExpectedInteger
  | ErrNoMatch
  | ErrNum num_error
  | ErrOverflow
  | ErrBadVerb
  | ErrTooFewOperands
  | ErrTooManyOperands

text \<open>
  \<^verbatim>\<open>SkipSpace\<close> as \<^verbatim>\<open>Sscanf\<close> runs it (newlines are not spaces there): a newline in
  the input is the error "unexpected newline"; a carriage return is a space whether or
  not a newline follows it.
\<close>

function SkipSpace :: "string \<Rightarrow> scan_error + string" where
  "SkipSpace s =
     (if s = [] then Inr []
      else if hd s = CHR 0x0A then Inl ErrUnexpectedNewline
      else if space_width s = 0 then Inr s
      else SkipSpace (drop (space_width s) s))"
  by pat_completeness auto
termination
  by (relation "measure length") auto

declare SkipSpace.simps [simp del]

definition num_char :: "char \<Rightarrow> bool" where
  "num_char c = (is_digit c \<or> c = CHR ''_'')"

text \<open>
  \<^verbatim>\<open>scanNumber\<close> with the digit set of base 10 (the decimal digits and the underscore):
  at least one such byte, then all that follow.
\<close>

definition scanNumber :: "string \<Rightarrow> scan_error + (string \<times> string)" where
  "scanNumber s =
     (case s of
        [] \<Rightarrow> Inl ErrEOF
      | c # _ \<Rightarrow> if \<not> num_char c then Inl ErrExpectedInteger
                 else Inr (takeWhile num_char s, dropWhile num_char s))"

text \<open>
  \<^verbatim>\<open>scanUint(verb, bitSize)\<close> for the verb \<^verbatim>\<open>d\<close>: the token is converted by
  \<^verbatim>\<open>strconv.ParseUint(tok, 10, 64)\<close> and must fit the operand's bit size.
\<close>

definition scanUint :: "nat \<Rightarrow> string \<Rightarrow> scan_error + (nat \<times> string)" where
  "scanUint bitSize s =
     (case SkipSpace s of
        Inl e \<Rightarrow> Inl e
      | Inr s1 \<Rightarrow>
          if s1 = [] then Inl ErrEOF
          else (case scanNumber s1 of
                  Inl e \<Rightarrow> Inl e
                | Inr (tok, rest) \<Rightarrow>
                    (case ParseUint tok 64 of
                       (i, Some e) \<Rightarrow> Inl (ErrNum e)
                     | (i, None) \<Rightarrow>
                         if i mod 2 ^ bitSize \<noteq> i then Inl ErrOverflow
                         else Inr (i, rest))))"

text \<open>The token of \<^verbatim>\<open>%s\<close>: the bytes up to the next space rune or the end.\<close>

fun token_notSpace :: "string \<Rightarrow> string \<times> string" where
  "token_notSpace [] = ([], [])"
| "token_notSpace (c # cs) =
     (if space_width (c # cs) > 0 then ([], c # cs)
      else (case token_notSpace cs of (t, r) \<Rightarrow> (c # t, r)))"

definition convertString :: "string \<Rightarrow> scan_error + (string \<times> string)" where
  "convertString s =
     (case SkipSpace s of
        Inl e \<Rightarrow> Inl e
      | Inr s1 \<Rightarrow>
          if s1 = [] then Inl ErrEOF
          else (case SkipSpace s1 of
                  Inl e \<Rightarrow> Inl e
                | Inr s2 \<Rightarrow> Inr (token_notSpace s2)))"

text \<open>
  An operand of \<^verbatim>\<open>Sscanf\<close> is a pointer; the model carries the pointed-to value, and an
  operand that was not reached keeps the value it had.
\<close>

datatype operand = U8 "8 word" | Str string

fun the_u8 :: "operand \<Rightarrow> 8 word" where
  "the_u8 (U8 b) = b"
| "the_u8 (Str _) = 0"

fun the_str :: "operand \<Rightarrow> string" where
  "the_str (Str s) = s"
| "the_str (U8 _) = []"

text \<open>
  The formats of this program are \<^verbatim>\<open>"%d.%d.%d"\<close> and \<^verbatim>\<open>"%s %s %s"\<close>: verbs without
  width, literal bytes and single spaces.
\<close>

datatype fitem = Verb char | Lit char | Spaces

fun scanOne :: "char \<Rightarrow> operand \<Rightarrow> string \<Rightarrow> scan_error + (operand \<times> string)" where
  "scanOne v (U8 _) s =
     (if v = CHR ''d''
      then (case scanUint 8 s of Inl e \<Rightarrow> Inl e | Inr (i, r) \<Rightarrow> Inr (U8 (of_nat i), r))
      else Inl ErrBadVerb)"
| "scanOne v (Str _) s =
     (if v = CHR ''s''
      then (case convertString s of Inl e \<Rightarrow> Inl e | Inr (t, r) \<Rightarrow> Inr (Str t, r))
      else Inl ErrBadVerb)"

text \<open>
  A space of the format (\<^verbatim>\<open>advance\<close>): at the end of the input it matches; otherwise the
  input must have a space there, and all spaces up to the next non-space are consumed; a
  newline among them is an error.
\<close>

function skip_format_space :: "string \<Rightarrow> scan_error + string" where
  "skip_format_space s =
     (if s = [] then Inr []
      else if hd s = CHR 0x0A then Inl ErrNewlineInInput
      else if space_width s = 0 then Inr s
      else skip_format_space (drop (space_width s) s))"
  by pat_completeness auto
termination
  by (relation "measure length") auto

declare skip_format_space.simps [simp del]

definition advance_space :: "string \<Rightarrow> scan_error + string" where
  "advance_space s =
     (if s = [] then Inr []
      else if space_width s = 0 then Inl ErrExpectedSpace
      else skip_format_space s)"

text \<open>
  \<^verbatim>\<open>doScanf\<close>: the result is the operands as they are left, the number of operands
  processed and the error. An error ends the scan at once (in Go, a panic recovered by
  \<^verbatim>\<open>errorHandler\<close>), so the operand being scanned and all later ones are not written.
\<close>

fun doScanf :: "fitem list \<Rightarrow> string \<Rightarrow> operand list \<Rightarrow> nat
                \<Rightarrow> operand list \<times> nat \<times> scan_error option" where
  "doScanf [] s a n = (a, n, if n < length a then Some ErrTooManyOperands else None)"
| "doScanf (Lit c # f) s a n =
     (case s of
        [] \<Rightarrow> (a, n, Some ErrUnexpectedEOF)
      | x # xs \<Rightarrow> if x = c then doScanf f xs a n else (a, n, Some ErrNoMatch))"
| "doScanf (Spaces # f) s a n =
     (case advance_space s of
        Inl e \<Rightarrow> (a, n, Some e)
      | Inr s1 \<Rightarrow> doScanf f s1 a n)"
| "doScanf (Verb v # f) s a n =
     (case SkipSpace s of
        Inl e \<Rightarrow> (a, n, Some e)
      | Inr s1 \<Rightarrow>
          if n \<ge> length a then (a, n, Some ErrTooFewOperands)
          else (case scanOne v (a ! n) s1 of
                  Inl e \<Rightarrow> (a, n, Some e)
                | Inr (x, s2) \<Rightarrow> doScanf f s2 (a[n := x]) (Suc n)))"

definition Sscanf :: "string \<Rightarrow> fitem list \<Rightarrow> operand list
                      \<Rightarrow> operand list \<times> nat \<times> scan_error option" where
  "Sscanf str format a = doScanf format str a 0"

subsection \<open>\<^verbatim>\<open>Version\<close> and its text\<close>

text \<open>
  \<^verbatim>\<open>a, b, c := v>>16, v>>8&0xff, v&0xff\<close>, rendered by \<^verbatim>\<open>"%d.%d.%d"\<close>. In Go
  \<^verbatim>\<open>>>\<close> and \<^verbatim>\<open>&\<close> have the same precedence and associate to the left.
\<close>

definition Version_String :: "Version \<Rightarrow> string" where
  "Version_String v =
     (let a = drop_bit 16 v; b = (drop_bit 8 v) AND 0xff; c = v AND 0xff
      in fmt_dec (unat a) @ ''.'' @ fmt_dec (unat b) @ ''.'' @ fmt_dec (unat c))"

definition VersionCode :: "8 word \<Rightarrow> 8 word \<Rightarrow> 8 word \<Rightarrow> Version" where
  "VersionCode major minor patch =
     push_bit 16 (ucast major) + push_bit 8 (ucast minor) + ucast patch"

definition format_version :: "fitem list" where
  "format_version = [Verb CHR ''d'', Lit CHR ''.'', Verb CHR ''d'', Lit CHR ''.'', Verb CHR ''d'']"

text \<open>
  \<^verbatim>\<open>ParseVersion\<close>: the three operands start at 0 and the count and the error of
  \<^verbatim>\<open>Sscanf\<close> are discarded.
\<close>

definition ParseVersion :: "string \<Rightarrow> Version" where
  "ParseVersion s =
     (case Sscanf s format_version [U8 0, U8 0, U8 0] of
        (ops, _, _) \<Rightarrow> VersionCode (the_u8 (ops ! 0)) (the_u8 (ops ! 1)) (the_u8 (ops ! 2)))"

subsection \<open>Regular expressions: \<^verbatim>\<open>regexp.FindStringSubmatch\<close>\<close>

text \<open>
  The patterns of this program are matched by a backtracking matcher with the preference
  order of package \<^verbatim>\<open>regexp\<close> (leftmost match; a greedy operator tries the longest
  repetition first, an optional group is tried before it is skipped). The text is UTF-8 and
  \<^verbatim>\<open>.\<close> consumes one rune, never a newline; \<open>rune_width s\<close> is the number of bytes
  \<^verbatim>\<open>utf8.DecodeRune\<close> consumes at the start of \<open>s\<close> (1 for a byte that starts no valid
  encoding).
\<close>

definition cont_byte :: "nat \<Rightarrow> bool" where
  "cont_byte b = (0x80 \<le> b \<and> b \<le> 0xBF)"

definition rune_width :: "string \<Rightarrow> nat" where
  "rune_width s =
     (case map of_char (take 4 s) :: nat list of
        [] \<Rightarrow> 0
      | b0 # r \<Rightarrow>
          if 0xC2 \<le> b0 \<and> b0 \<le> 0xDF then
            (case r of b1 # _ \<Rightarrow> if cont_byte b1 then 2 else 1 | _ \<Rightarrow> 1)
          else if 0xE0 \<le> b0 \<and> b0 \<le> 0xEF then
            (case r of
               b1 # b2 # _ \<Rightarrow>
                 if (if b0 = 0xE0 then 0xA0 else 0x80) \<le> b1
                    \<and> b1 \<le> (if b0 = 0xED then 0x9F else 0xBF) \<and> cont_byte b2
                 then 3 else 1
             | _ \<Rightarrow> 1)
          else if 0xF0 \<le> b0 \<and> b0 \<le> 0xF4 then
            (case r of
               b1 # b2 # b3 # _ \<Rightarrow>
                 if (if b0 = 0xF0 then 0x90 else 0x80) \<le> b1
                    \<and> b1 \<le> (if b0 = 0xF4 then 0x8F else 0xBF) \<and> cont_byte b2 \<and> cont_byte b3
                 then 4 else 1
             | _ \<Rightarrow> 1)
          else 1)"

datatype cclass = Digit | Alnum | AnyChar | Ch char

fun in_class :: "cclass \<Rightarrow> char \<Rightarrow> bool" where
  "in_class Digit c = is_digit c"
| "in_class Alnum c =
     (is_digit c \<or> (65 \<le> (of_char c :: nat) \<and> (of_char c :: nat) \<le> 90)
      \<or> (97 \<le> (of_char c :: nat) \<and> (of_char c :: nat) \<le> 122))"
| "in_class AnyChar c = (c \<noteq> CHR 0x0A)"
| "in_class (Ch x) c = (c = x)"

text \<open>One rune of a class: the rest of the text after it, or \<open>None\<close>.\<close>

definition step :: "cclass \<Rightarrow> string \<Rightarrow> string option" where
  "step cl s =
     (case s of
        [] \<Rightarrow> None
      | c # cs \<Rightarrow>
          if \<not> in_class cl c then None
          else if cl = AnyChar then Some (drop (rune_width s) s)
          else Some cs)"

datatype re =
    One cclass
  | Star cclass
  | Plus cclass
  | Seq re re
  | Opt re
  | Grp nat re
  | Eol
  | Eps

lemma rune_width_pos: "rune_width (c # cs) > 0"
  by (auto simp: rune_width_def split: list.splits)

lemma step_shorter: "step cl s = Some s' \<Longrightarrow> length s' < length s"
  by (cases s) (auto simp: step_def rune_width_pos split: if_splits)

text \<open>
  The matcher passes the rest of the text and the captures to a continuation; \<open>None\<close>
  makes it try the next alternative.
\<close>

function star_k :: "cclass \<Rightarrow> string \<Rightarrow> (string \<Rightarrow> 'a option) \<Rightarrow> 'a option" where
  "star_k cl s k =
     (case step cl s of
        None \<Rightarrow> k s
      | Some s' \<Rightarrow> (case star_k cl s' k of Some r \<Rightarrow> Some r | None \<Rightarrow> k s))"
  by pat_completeness auto
termination
  by (relation "measure (\<lambda>(cl, s, k). length s)") (auto simp: step_shorter)

declare star_k.simps [simp del]

fun match :: "re \<Rightarrow> string \<Rightarrow> string list \<Rightarrow> (string \<Rightarrow> string list \<Rightarrow> 'a option) \<Rightarrow> 'a option" where
  "match (One cl) s c k = (case step cl s of None \<Rightarrow> None | Some s' \<Rightarrow> k s' c)"
| "match (Star cl) s c k = star_k cl s (\<lambda>s'. k s' c)"
| "match (Plus cl) s c k =
     (case step cl s of None \<Rightarrow> None | Some s' \<Rightarrow> star_k cl s' (\<lambda>s''. k s'' c))"
| "match (Seq a b) s c k = match a s c (\<lambda>s' c'. match b s' c' k)"
| "match (Opt a) s c k = (case match a s c k of Some r \<Rightarrow> Some r | None \<Rightarrow> k s c)"
| "match (Grp i a) s c k =
     match a s c (\<lambda>s' c'. k s' (c'[i := take (length s - length s') s]))"
| "match Eol s c k = (if s = [] then k s c else None)"
| "match Eps s c k = k s c"

text \<open>
  A match at the start of \<open>s\<close>: the list of the whole match and the \<open>n\<close> groups, a group
  that took no part being the empty string.
\<close>

definition match_here :: "re \<Rightarrow> nat \<Rightarrow> string \<Rightarrow> string list option" where
  "match_here r n s =
     match r s (replicate (Suc n) []) (\<lambda>s' c. Some (c[0 := take (length s - length s') s]))"

text \<open>An unanchored pattern is tried at every rune of the text, from the left.\<close>

function search :: "re \<Rightarrow> nat \<Rightarrow> string \<Rightarrow> string list option" where
  "search r n s =
     (case match_here r n s of
        Some m \<Rightarrow> Some m
      | None \<Rightarrow> if s = [] then None else search r n (drop (rune_width s) s))"
  by pat_completeness auto
termination
  by (relation "measure (\<lambda>(r, n, s). length s)") (auto simp: neq_Nil_conv rune_width_pos)

declare search.simps [simp del]

text \<open>
  \<^verbatim>\<open>FindStringSubmatch\<close>: a pattern is its body, the number of groups and whether it
  starts with \<^verbatim>\<open>^\<close>; no match is the nil slice, of length 0.
\<close>

record pattern =
  anchored :: bool
  groups :: nat
  body :: re

definition FindStringSubmatch :: "pattern \<Rightarrow> string \<Rightarrow> string list" where
  "FindStringSubmatch p s =
     (case (if anchored p then match_here (body p) (groups p) s
            else search (body p) (groups p) s) of
        None \<Rightarrow> []
      | Some m \<Rightarrow> m)"

fun seqs :: "re list \<Rightarrow> re" where
  "seqs [] = Eps"
| "seqs [r] = r"
| "seqs (r # rs) = Seq r (seqs rs)"

definition lit :: "string \<Rightarrow> re" where
  "lit s = seqs (map (\<lambda>c. One (Ch c)) s)"

text \<open>\<^verbatim>\<open>^(\d+)\.(\d+)(?:.(\d+))?.*$\<close>\<close>

definition releasePattern :: pattern where
  "releasePattern =
     \<lparr>anchored = True, groups = 3,
      body = seqs [Grp 1 (Plus Digit), One (Ch CHR ''.''), Grp 2 (Plus Digit),
                   Opt (Seq (One AnyChar) (Grp 3 (Plus Digit))),
                   Star AnyChar, Eol]\<rparr>"

text \<open>\<^verbatim>\<open>.* SMP Debian (\d+\.\d+.\d+-\d+)(?:\+[[:alnum:]]*)?.*\<close>\<close>

definition debianVersionRegex :: pattern where
  "debianVersionRegex =
     \<lparr>anchored = False, groups = 1,
      body = seqs [Star AnyChar, lit '' SMP Debian '',
                   Grp 1 (seqs [Plus Digit, One (Ch CHR ''.''), Plus Digit, One AnyChar,
                                Plus Digit, One (Ch CHR ''-''), Plus Digit]),
                   Opt (Seq (One (Ch CHR ''+'')) (Star Alnum)),
                   Star AnyChar]\<rparr>"

subsection \<open>Release strings\<close>

datatype kernel_error =
    ErrInvalidRelease string
  | ErrNumber string num_error
  | ErrScan scan_error
  | ErrReadFile string
  | ErrReadProcVersion
  | ErrParseProcVersion string
  | ErrUname

text \<open>
  \<^verbatim>\<open>kernelVersionFromReleaseString\<close>. \<^verbatim>\<open>ErrInvalidRelease s\<close> is the error
  \<^verbatim>\<open>got invalid release version "s" (expected format '4.3.2-1')\<close>. Major and minor are
  read by \<^verbatim>\<open>strconv.ParseUint(_, 10, 8)\<close> and their errors returned; the error of the
  patch is dropped and the value \<^verbatim>\<open>ParseUint\<close> returns with it is kept. The sum is a
  \<^verbatim>\<open>uint64\<close>, converted to \<^verbatim>\<open>uint32\<close>.
\<close>

definition kernelVersionFromReleaseString :: "string \<Rightarrow> kernel_error + 32 word" where
  "kernelVersionFromReleaseString releaseString =
     (let versionParts = FindStringSubmatch releasePattern releaseString
      in if length versionParts < 3 then Inl (ErrInvalidRelease releaseString)
         else (case ParseUint (versionParts ! 1) 8 of
                 (major, Some e) \<Rightarrow> Inl (ErrNumber (versionParts ! 1) e)
               | (major, None) \<Rightarrow>
                   (case ParseUint (versionParts ! 2) 8 of
                      (minor, Some e) \<Rightarrow> Inl (ErrNumber (versionParts ! 2) e)
                    | (minor, None) \<Rightarrow>
                        (let patch0 = (if length versionParts \<ge> 4
                                       then fst (ParseUint (versionParts ! 3) 8) else 0);
                             patch = (if major = 4 \<and> minor = 14 \<and> patch0 \<ge> 252
                                      then 255 else patch0);
                             out = (major * 256 * 256 + minor * 256 + patch) mod 2 ^ 64
                         in Inr (of_nat out)))))"

definition format_signature :: "fitem list" where
  "format_signature = [Verb CHR ''s'', Spaces, Verb CHR ''s'', Spaces, Verb CHR ''s'']"

definition parseUbuntuVersion :: "string \<Rightarrow> kernel_error + 32 word" where
  "parseUbuntuVersion procVersion =
     (case Sscanf procVersion format_signature [Str [], Str [], Str []] of
        (ops, _, Some e) \<Rightarrow> Inl (ErrScan e)
      | (ops, _, None) \<Rightarrow> kernelVersionFromReleaseString (the_str (ops ! 2)))"

definition parseDebianVersion :: "string \<Rightarrow> kernel_error + 32 word" where
  "parseDebianVersion str =
     (let m = FindStringSubmatch debianVersionRegex str
      in if length m \<noteq> 2 then Inl (ErrParseProcVersion str)
         else kernelVersionFromReleaseString (m ! 1))"

text \<open>
  \<^verbatim>\<open>utsnameStr\<close> starts from a slice of \<open>len(in)\<close> zero bytes and appends the bytes
  of the field up to its first zero; \<^verbatim>\<open>strings.Trim(_, "\x00")\<close> removes the zero bytes
  at both ends.
\<close>

definition utsnameStr :: "string \<Rightarrow> string" where
  "utsnameStr inp = replicate (length inp) (CHR 0x00) @ takeWhile (\<lambda>c. c \<noteq> CHR 0x00) inp"

definition Trim_nul :: "string \<Rightarrow> string" where
  "Trim_nul s =
     rev (dropWhile (\<lambda>c. c = CHR 0x00) (rev (dropWhile (\<lambda>c. c = CHR 0x00) s)))"

subsection \<open>The host and its probes\<close>

text \<open>
  What the functions read from the host: the content of a file (\<open>None\<close> when it cannot
  be read), the release field of the \<^verbatim>\<open>uname\<close> system call (\<open>None\<close> when the call
  fails) and whether a path exists (\<^verbatim>\<open>os.Stat\<close> without error). Each function returns,
  with its result, the probes it made, in order.
\<close>

record host =
  ReadFile :: "string \<Rightarrow> string option"
  Uname_Release :: "string option"
  Stat :: "string \<Rightarrow> bool"

datatype probe = PReadFile string | PUname | PStat string | PConfig

definition currentVersionUbuntu :: "host \<Rightarrow> (kernel_error + 32 word) \<times> probe list" where
  "currentVersionUbuntu h =
     (case ReadFile h ''/proc/version_signature'' of
        None \<Rightarrow> Inl (ErrReadFile ''/proc/version_signature'')
      | Some procVersion \<Rightarrow> parseUbuntuVersion procVersion,
      [PReadFile ''/proc/version_signature''])"

definition currentVersionDebian :: "host \<Rightarrow> (kernel_error + 32 word) \<times> probe list" where
  "currentVersionDebian h =
     (case ReadFile h ''/proc/version'' of
        None \<Rightarrow> Inl ErrReadProcVersion
      | Some procVersion \<Rightarrow> parseDebianVersion procVersion,
      [PReadFile ''/proc/version''])"

definition currentVersionUname :: "host \<Rightarrow> (kernel_error + 32 word) \<times> probe list" where
  "currentVersionUname h =
     (case Uname_Release h of
        None \<Rightarrow> Inl ErrUname
      | Some release \<Rightarrow> kernelVersionFromReleaseString (Trim_nul (utsnameStr release)),
      [PUname])"

definition CurrentKernelVersion :: "host \<Rightarrow> (kernel_error + 32 word) \<times> probe list" where
  "CurrentKernelVersion h =
     (case currentVersionUbuntu h of
        (Inr version, t1) \<Rightarrow> (Inr version, t1)
      | (Inl _, t1) \<Rightarrow>
          (case currentVersionDebian h of
             (Inr version, t2) \<Rightarrow> (Inr version, t1 @ t2)
           | (Inl _, t2) \<Rightarrow>
               (case currentVersionUname h of (r, t3) \<Rightarrow> (r, t1 @ t2 @ t3))))"

text \<open>
  \<^verbatim>\<open>HostVersion\<close> with the package variable \<^verbatim>\<open>hostVersion\<close> passed in and out: the
  result is the returned pair, the variable afterwards and the probes made.
\<close>

definition HostVersion :: "host \<Rightarrow> Version
                           \<Rightarrow> (Version \<times> kernel_error option) \<times> Version \<times> probe list" where
  "HostVersion h hostVersion =
     (if hostVersion \<noteq> 0 then ((hostVersion, None), hostVersion, [])
      else (case CurrentKernelVersion h of
              (Inl err, t) \<Rightarrow> ((0, Some err), hostVersion, t)
            | (Inr kv, t) \<Rightarrow> ((kv, None), kv, t)))"

subsection \<open>Sample hosts\<close>

text \<open>
  An Ubuntu host (signature file present), a Debian host (banner with the Debian version),
  a host where only \<^verbatim>\<open>uname\<close> gives a version, a host where nothing can be read, and a
  host whose release is \<open>0.0.0\<close>. The release field is padded with zero bytes.
\<close>

definition host_ubuntu :: host where
  "host_ubuntu =
     \<lparr>ReadFile = (\<lambda>p. if p = ''/proc/version_signature''
                          then Some (''Ubuntu 6.2.0-33.33~22.04.1-generic 6.2.16'' @ [CHR 0x0A])
                          else None),
      Uname_Release = Some (''6.2.0-33-generic'' @ replicate 49 (CHR 0x00)),
      Stat = (\<lambda>p. False)\<rparr>"

definition host_debian :: host where
  "host_debian =
     \<lparr>ReadFile = (\<lambda>p. if p = ''/proc/version''
                          then Some (''Linux version 5.10.0-8-amd64 #1 SMP Debian 5.10.46-4 (2021-08-03)'' @ [CHR 0x0A])
                          else None),
      Uname_Release = Some (''5.10.0-8-amd64'' @ replicate 51 (CHR 0x00)),
      Stat = (\<lambda>p. False)\<rparr>"

definition host_generic :: host where
  "host_generic =
     \<lparr>ReadFile = (\<lambda>p. if p = ''/proc/version''
                          then Some (''Linux version 5.15.0 #1 SMP PREEMPT'' @ [CHR 0x0A])
                          else None),
      Uname_Release = Some (''5.15.0-76-generic'' @ replicate 48 (CHR 0x00)),
      Stat = (\<lambda>p. False)\<rparr>"

definition host_unknown :: host where
  "host_unknown = \<lparr>ReadFile = (\<lambda>p. None), Uname_Release = None, Stat = (\<lambda>p. False)\<rparr>"

definition host_zero :: host where
  "host_zero =
     \<lparr>ReadFile = (\<lambda>p. None),
      Uname_Release = Some (''0.0.0'' @ replicate 60 (CHR 0x00)),
      Stat = (\<lambda>p. False)\<rparr>"

section \<open>Kernel features (package ebpf)\<close>

datatype ebpf_error = EUname | EConfig | Errorf string

text \<open>\<^verbatim>\<open>charsToString\<close>: the bytes of the field before its first zero.\<close>

definition charsToString :: "string \<Rightarrow> string" where
  "charsToString ca = takeWhile (\<lambda>c. c \<noteq> CHR 0x00) ca"

definition getOSUnamer :: "host \<Rightarrow> ebpf_error + string" where
  "getOSUnamer h =
     (case Uname_Release h of None \<Rightarrow> Inl EUname | Some r \<Rightarrow> Inr (charsToString r))"

text \<open>
  \<^verbatim>\<open>findVMLinux\<close>. The table \<^verbatim>\<open>locations\<close> of path templates is declared outside the
  sources at hand: it is the parameter \<open>locations\<close>, and \<open>Sprintf loc release\<close> stands for
  \<^verbatim>\<open>fmt.Sprintf(loc, release)\<close>. The loop stops at the first path that exists; after the
  loop the error returned is the nil error of \<^verbatim>\<open>getOSUnamer\<close>.
\<close>

fun scan_locations :: "(string \<Rightarrow> string \<Rightarrow> string) \<Rightarrow> host \<Rightarrow> string \<Rightarrow> string list
                        \<Rightarrow> bool \<times> probe list" where
  "scan_locations Sprintf h release [] = (False, [])"
| "scan_locations Sprintf h release (loc # locs) =
     (if \<not> Stat h (Sprintf loc release)
      then (case scan_locations Sprintf h release locs of
              (found, t) \<Rightarrow> (found, PStat (Sprintf loc release) # t))
      else (True, [PStat (Sprintf loc release)]))"

definition findVMLinux :: "(string \<Rightarrow> string \<Rightarrow> string) \<Rightarrow> string list \<Rightarrow> host
                           \<Rightarrow> (bool \<times> ebpf_error option) \<times> probe list" where
  "findVMLinux Sprintf locations h =
     (case getOSUnamer h of
        Inl err \<Rightarrow> ((False, Some err), [PUname])
      | Inr release \<Rightarrow>
          (case scan_locations Sprintf h release locations of
             (found, t) \<Rightarrow> ((found, None), PUname # t)))"

definition checkKernelBTF :: "(string \<Rightarrow> string \<Rightarrow> string) \<Rightarrow> string list \<Rightarrow> host
                              \<Rightarrow> (bool \<times> ebpf_error option) \<times> probe list" where
  "checkKernelBTF Sprintf locations h =
     (if Stat h ''/sys/kernel/btf/vmlinux''
      then ((True, None), [PStat ''/sys/kernel/btf/vmlinux''])
      else (case findVMLinux Sprintf locations h of
              (r, t) \<Rightarrow> (r, PStat ''/sys/kernel/btf/vmlinux'' # t)))"

text \<open>
  \<^verbatim>\<open>GetSystemConfig\<close> is declared outside the sources at hand: its result, the error or
  the map of the kernel configuration, is the parameter \<open>GetSystemConfig\<close>, and calling it
  is the probe \<open>PConfig\<close>.
\<close>

definition IsEnableBTF :: "(string \<Rightarrow> string \<Rightarrow> string) \<Rightarrow> string list
                           \<Rightarrow> ebpf_error + (string \<rightharpoonup> string) \<Rightarrow> host
                           \<Rightarrow> (bool \<times> ebpf_error option) \<times> probe list" where
  "IsEnableBTF Sprintf locations GetSystemConfig h =
     (case checkKernelBTF Sprintf locations h of
        ((found, e), t) \<Rightarrow>
          if e = None \<and> found then ((True, None), t)
          else (case GetSystemConfig of
                  Inl e \<Rightarrow> ((False, Some e), t @ [PConfig])
                | Inr KernelConfig \<Rightarrow>
                    (case KernelConfig ''CONFIG_DEBUG_INFO_BTF'' of
                       None \<Rightarrow> ((False, None), t @ [PConfig])
                     | Some bc \<Rightarrow>
                         if bc \<noteq> ''y'' then ((False, None), t @ [PConfig])
                         else ((True, None), t @ [PConfig]))))"

definition not_found_message :: "string \<Rightarrow> string" where
  "not_found_message item = ''Config not found,  item:'' @ item @ ''.''"

definition disabled_message :: "string \<Rightarrow> string" where
  "disabled_message item = ''Config disabled, item :'' @ item @ ''.''"

fun check_items :: "(string \<rightharpoonup> string) \<Rightarrow> string list \<Rightarrow> bool \<times> ebpf_error option" where
  "check_items KernelConfig [] = (True, None)"
| "check_items KernelConfig (item # items) =
     (case KernelConfig item of
        None \<Rightarrow> (False, Some (Errorf (not_found_message item)))
      | Some bc \<Rightarrow>
          if bc \<noteq> ''y'' then (False, Some (Errorf (disabled_message item)))
          else check_items KernelConfig items)"

definition IsEnableBPF :: "ebpf_error + (string \<rightharpoonup> string) \<Rightarrow> bool \<times> ebpf_error option" where
  "IsEnableBPF GetSystemConfig =
     (case GetSystemConfig of
        Inl e \<Rightarrow> (False, Some e)
      | Inr KernelConfig \<Rightarrow>
          check_items KernelConfig
            [''CONFIG_BPF'', ''CONFIG_UPROBES'', ''CONFIG_ARCH_SUPPORTS_UPROBES''])"

section \<open>The Postgres module (package module)\<close>

text \<open>
  A \<^verbatim>\<open>*ebpf.Map\<close> is an address. A value of the interface \<^verbatim>\<open>event.IEventStruct\<close> is
  nil or a pointer to a \<^verbatim>\<open>PostgresEvent\<close>. A Go map is \<open>None\<close> when it is the nil map:
  reading it finds nothing, writing to it panics. A call either returns or ends in a
  run-time panic.
\<close>

type_synonym map_handle = nat

datatype IEventStruct = NilEvent | PostgresEvent

datatype 'a outcome = Panic | Returned 'a

datatype module_error =
    CouldntFindAsset
  | CouldntFindBinPath
  | CouldntInitManager
  | CouldntStartManager
  | GetMapError
  | CantFoundMapEvents
  | CouldntStopManager
  | BaseCloseError

text \<open>
  The manager of the library \<^verbatim>\<open>ebpfmanager\<close> is outside this repository. Of a manager
  the model keeps whether \<^verbatim>\<open>InitWithOptions\<close> and \<^verbatim>\<open>Start\<close> have succeeded on it.
  What the library and the rest of the program answer is the record \<open>world\<close>: whether the
  bytecode asset and the binary to attach to exist, the errors of \<^verbatim>\<open>InitWithOptions\<close>
  and \<^verbatim>\<open>Start\<close>, the answer of \<^verbatim>\<open>GetMap("events")\<close>, the error of \<^verbatim>\<open>Stop\<close> on a
  manager, and the error of the embedded \<^verbatim>\<open>Module.Close\<close>.
\<close>

record Manager =
  initialized :: bool
  started :: bool

record world =
  asset_found :: bool
  binary_exists :: bool
  InitWithOptions_fails :: bool
  Start_fails :: bool
  GetMap_events :: "map_handle \<times> bool \<times> bool"
  Stop_fails :: "Manager \<Rightarrow> bool"
  Module_Close :: "module_error option"

record PostgresModule =
  bpfManager :: "Manager option"
  eventFuncMaps :: "(map_handle \<rightharpoonup> IEventStruct) option"
  eventMaps :: "map_handle list"

text \<open>The module registered by \<^verbatim>\<open>init()\<close> is \<^verbatim>\<open>&PostgresModule{}\<close>: every field zero.\<close>

definition new_module :: PostgresModule where
  "new_module = \<lparr>bpfManager = None, eventFuncMaps = None, eventMaps = []\<rparr>"

definition Init :: "PostgresModule \<Rightarrow> PostgresModule" where
  "Init m = m\<lparr>eventMaps := [], eventFuncMaps := Some Map.empty\<rparr>"

text \<open>
  \<^verbatim>\<open>setupManagers\<close> returns the error of \<^verbatim>\<open>os.Stat\<close> before it assigns
  \<^verbatim>\<open>bpfManager\<close>.
\<close>

definition setupManagers :: "world \<Rightarrow> PostgresModule \<Rightarrow> bool \<times> PostgresModule" where
  "setupManagers w m =
     (if \<not> binary_exists w then (False, m)
      else (True, m\<lparr>bpfManager := Some \<lparr>initialized = False, started = False\<rparr>\<rparr>))"

definition initDecodeFun :: "world \<Rightarrow> PostgresModule
                             \<Rightarrow> module_error option outcome \<times> PostgresModule" where
  "initDecodeFun w m =
     (case GetMap_events w of
        (postgresEventsMap, found, err) \<Rightarrow>
          if err then (Returned (Some GetMapError), m)
          else if \<not> found then (Returned (Some CantFoundMapEvents), m)
          else (case eventFuncMaps m of
                  None \<Rightarrow> (Panic, m\<lparr>eventMaps := eventMaps m @ [postgresEventsMap]\<rparr>)
                | Some f \<Rightarrow>
                    (Returned None,
                     m\<lparr>eventMaps := eventMaps m @ [postgresEventsMap],
                       eventFuncMaps := Some (f(postgresEventsMap \<mapsto> PostgresEvent))\<rparr>)))"

text \<open>
  \<^verbatim>\<open>Start\<close>. The methods of the manager are called on the pointer that
  \<^verbatim>\<open>setupManagers\<close> has just assigned.
\<close>

definition Start :: "world \<Rightarrow> PostgresModule \<Rightarrow> module_error option outcome \<times> PostgresModule" where
  "Start w m =
     (if \<not> asset_found w then (Returned (Some CouldntFindAsset), m)
      else (case setupManagers w m of
              (False, m1) \<Rightarrow> (Returned (Some CouldntFindBinPath), m1)
            | (True, m1) \<Rightarrow>
                if InitWithOptions_fails w then (Returned (Some CouldntInitManager), m1)
                else (let m2 = m1\<lparr>bpfManager := Some \<lparr>initialized = True, started = False\<rparr>\<rparr>
                      in if Start_fails w then (Returned (Some CouldntStartManager), m2)
                         else initDecodeFun w
                                (m2\<lparr>bpfManager := Some \<lparr>initialized = True, started = True\<rparr>\<rparr>))))"

text \<open>
  \<^verbatim>\<open>Close\<close> calls \<^verbatim>\<open>bpfManager.Stop(manager.CleanAll)\<close> without looking at the
  pointer. \<^verbatim>\<open>Stop\<close> locks the state lock of its receiver first, so on a nil receiver the
  call is a nil-pointer dereference, a run-time panic. On a manager, an error of
  \<^verbatim>\<open>Stop\<close> is returned wrapped and the embedded \<^verbatim>\<open>Module.Close\<close> is not called.
\<close>

definition Close :: "world \<Rightarrow> PostgresModule \<Rightarrow> module_error option outcome" where
  "Close w m =
     (case bpfManager m of
        None \<Rightarrow> Panic
      | Some mgr \<Rightarrow>
          if Stop_fails w mgr then Returned (Some CouldntStopManager)
          else Returned (Module_Close w))"

definition DecodeFun :: "PostgresModule \<Rightarrow> map_handle \<Rightarrow> IEventStruct \<times> bool" where
  "DecodeFun m em =
     (case eventFuncMaps m of
        None \<Rightarrow> (NilEvent, False)
      | Some f \<Rightarrow> (case f em of None \<Rightarrow> (NilEvent, False) | Some fun \<Rightarrow> (fun, True)))"

definition Events :: "PostgresModule \<Rightarrow> map_handle list" where
  "Events m = eventMaps m"

section \<open>Properties of the version functions\<close>

subsection \<open>Decimal text is read back\<close>

lemma of_char_digit_char: "d < 10 \<Longrightarrow> (of_char (digit_char d) :: nat) = 48 + d"
  by (simp add: digit_char_def)

lemma is_digit_digit_char: "d < 10 \<Longrightarrow> is_digit (digit_char d)"
  by (simp add: is_digit_def of_char_digit_char)

lemma digit_val_digit_char: "d < 10 \<Longrightarrow> digit_val (digit_char d) = d"
  by (simp add: digit_val_def of_char_digit_char)

lemma fmt_dec_digits: "\<forall>c \<in> set (fmt_dec n). is_digit c"
proof (induction n rule: fmt_dec.induct)
  case (1 n)
  show ?case
  proof (cases "n < 10")
    case True
    then show ?thesis by (subst fmt_dec.simps) (simp add: is_digit_digit_char)
  next
    case False
    with 1 show ?thesis by (subst fmt_dec.simps) (simp add: is_digit_digit_char)
  qed
qed

lemma fmt_dec_nonempty: "fmt_dec n \<noteq> []"
  by (subst fmt_dec.simps) simp

lemma ParseUint_loop_append:
  "ParseUint_loop M (xs @ ys) acc =
     (case ParseUint_loop M xs acc of
        (v, None) \<Rightarrow> ParseUint_loop M ys v
      | (v, Some e) \<Rightarrow> (v, Some e))"
  by (induction xs arbitrary: acc) (simp_all add: Let_def)

lemma ParseUint_loop_fmt_dec:
  "n \<le> M \<Longrightarrow> M < 2 ^ 64 \<Longrightarrow> ParseUint_loop M (fmt_dec n) 0 = (n, None)"
proof (induction n rule: fmt_dec.induct)
  case (1 n)
  show ?case
  proof (cases "n < 10")
    case True
    with 1(2,3) show ?thesis
      by (subst fmt_dec.simps)
         (simp add: is_digit_digit_char digit_val_digit_char cutoff10_def)
  next
    case False
    have le: "n div 10 \<le> M" using 1(2) by simp
    have ih: "ParseUint_loop M (fmt_dec (n div 10)) 0 = (n div 10, None)"
      using 1(1) [OF False le 1(3)] .
    have c: "n div 10 < cutoff10" using 1(2,3) by (simp add: cutoff10_def)
    have m: "(n div 10 * 10 + n mod 10) mod 2 ^ 64 = n" using 1(2,3) by simp
    show ?thesis using False ih c m 1(2)
      by (subst fmt_dec.simps)
         (simp add: ParseUint_loop_append is_digit_digit_char digit_val_digit_char Let_def)
  qed
qed

lemma ParseUint_fmt_dec: "n < 2 ^ 64 \<Longrightarrow> ParseUint (fmt_dec n) 64 = (n, None)"
  by (simp add: ParseUint_def fmt_dec_nonempty ParseUint_loop_fmt_dec)


lemma space_width_digit: "is_digit c \<Longrightarrow> space_width (c # s) = 0"
  by (cases s; cases "tl s") (auto simp: space_width_def is_digit_def)

lemma SkipSpace_digit: "is_digit c \<Longrightarrow> SkipSpace (c # s) = Inr (c # s)"
  by (subst SkipSpace.simps) (auto simp: space_width_digit is_digit_def)

lemma fmt_dec_hd: "\<exists>c cs. fmt_dec n = c # cs \<and> is_digit c"
  using fmt_dec_digits [of n] fmt_dec_nonempty [of n] by (cases "fmt_dec n") auto

lemma SkipSpace_fmt_dec: "SkipSpace (fmt_dec n @ r) = Inr (fmt_dec n @ r)"
  using fmt_dec_hd [of n] by (auto simp: SkipSpace_digit)

lemma num_char_dot: "\<not> num_char CHR ''.''"
  by (simp add: num_char_def is_digit_def)

lemma scanNumber_fmt_dec:
  "r = [] \<or> \<not> num_char (hd r) \<Longrightarrow> scanNumber (fmt_dec n @ r) = Inr (fmt_dec n, r)"
proof -
  assume r: "r = [] \<or> \<not> num_char (hd r)"
  have all: "\<forall>c \<in> set (fmt_dec n). num_char c"
    using fmt_dec_digits [of n] by (simp add: num_char_def)
  have tw: "takeWhile num_char (fmt_dec n @ r) = fmt_dec n"
    using all r by (cases r) (simp_all add: takeWhile_append2)
  have dw: "dropWhile num_char (fmt_dec n @ r) = r"
    using all r by (cases r) (simp_all add: dropWhile_append2)
  obtain c cs where h: "fmt_dec n = c # cs" "is_digit c" using fmt_dec_hd by blast
  have "num_char c" using h(2) by (simp add: num_char_def)
  then have "scanNumber ((c # cs) @ r) = Inr (takeWhile num_char ((c # cs) @ r), dropWhile num_char ((c # cs) @ r))"
    by (simp add: scanNumber_def)
  then show ?thesis using tw dw h(1) by simp
qed

lemma scanUint_fmt_dec:
  assumes "n < 256" and "r = [] \<or> \<not> num_char (hd r)"
  shows "scanUint 8 (fmt_dec n @ r) = Inr (n, r)"
proof -
  have p: "ParseUint (fmt_dec n) 64 = (n, None)"
    using assms(1) by (intro ParseUint_fmt_dec) simp
  show ?thesis
    using assms p
    by (simp add: scanUint_def SkipSpace_fmt_dec scanNumber_fmt_dec fmt_dec_nonempty)
qed

lemma Sscanf_version:
  assumes "x < 256" "y < 256" "z < 256"
  shows "Sscanf (fmt_dec x @ ''.'' @ fmt_dec y @ ''.'' @ fmt_dec z) format_version [U8 a, U8 b, U8 c]
           = ([U8 (of_nat x), U8 (of_nat y), U8 (of_nat z)], 3, None)"
proof -
  have 1: "scanUint 8 (fmt_dec x @ CHR ''.'' # fmt_dec y @ CHR ''.'' # fmt_dec z)
            = Inr (x, CHR ''.'' # fmt_dec y @ CHR ''.'' # fmt_dec z)"
    using scanUint_fmt_dec [OF assms(1), of "CHR ''.'' # fmt_dec y @ CHR ''.'' # fmt_dec z"]
    by (simp add: num_char_dot)
  have 2: "scanUint 8 (fmt_dec y @ CHR ''.'' # fmt_dec z) = Inr (y, CHR ''.'' # fmt_dec z)"
    using scanUint_fmt_dec [OF assms(2), of "CHR ''.'' # fmt_dec z"] by (simp add: num_char_dot)
  have 3: "scanUint 8 (fmt_dec z) = Inr (z, [])"
    using scanUint_fmt_dec [OF assms(3), of "[]"] by simp
  have s1: "SkipSpace (fmt_dec x @ CHR ''.'' # fmt_dec y @ CHR ''.'' # fmt_dec z)
             = Inr (fmt_dec x @ CHR ''.'' # fmt_dec y @ CHR ''.'' # fmt_dec z)"
    by (rule SkipSpace_fmt_dec)
  have s2: "SkipSpace (fmt_dec y @ CHR ''.'' # fmt_dec z) = Inr (fmt_dec y @ CHR ''.'' # fmt_dec z)"
    by (rule SkipSpace_fmt_dec)
  have s3: "SkipSpace (fmt_dec z) = Inr (fmt_dec z)"
    using SkipSpace_fmt_dec [of z "[]"] by simp
  show ?thesis
    by (simp add: Sscanf_def format_version_def 1 2 3 s1 s2 s3)
qed

subsection \<open>The components of a version code\<close>

lemma unat_u8_less: "unat (a :: 8 word) < 256"
  using unsigned_less [of a, where 'a = nat] by simp

lemma unat_VersionCode:
  "unat (VersionCode a b c) = unat a * 65536 + unat b * 256 + unat c"
proof -
  have a: "unat a < 256" and b: "unat b < 256" and c: "unat c < 256"
    by (rule unat_u8_less)+
  have ua: "unat (ucast a :: 32 word) = unat a"
    using a by (simp add: unsigned_ucast_eq take_bit_eq_mod)
  have ub: "unat (ucast b :: 32 word) = unat b"
    using b by (simp add: unsigned_ucast_eq take_bit_eq_mod)
  have uc: "unat (ucast c :: 32 word) = unat c"
    using c by (simp add: unsigned_ucast_eq take_bit_eq_mod)
  show ?thesis
    using a b c
    by (simp add: VersionCode_def push_bit_eq_mult unat_word_ariths ua ub uc)
qed

lemma ff_mask: "(0xff :: 32 word) = mask 8"
  by (simp add: mask_eq_exp_minus_1)

lemma nat_split: "x * 65536 + y * 256 + z = (x * 256 + y) * 256 + (z::nat)"
  by simp

lemma nat_minor:
  assumes "y < 256" and "z < 256"
  shows "(x * 65536 + y * 256 + z) div 256 mod 256 = (y::nat)"
proof -
  have "(x * 65536 + y * 256 + z) div 256 = ((x * 256 + y) * 256 + z) div 256"
    by (simp only: nat_split)
  also have "\<dots> = (x * 256 + y) + z div 256"
    by (rule div_mult_self3) simp
  also have "\<dots> = x * 256 + y" using assms(2) by simp
  finally have "(x * 65536 + y * 256 + z) div 256 mod 256 = (x * 256 + y) mod 256"
    by (rule arg_cong)
  also have "\<dots> = y mod 256" by (rule mod_mult_self3)
  finally show ?thesis using assms(1) by simp
qed

lemma nat_patch:
  assumes "z < 256"
  shows "(x * 65536 + y * 256 + z) mod 256 = (z::nat)"
proof -
  have "(x * 65536 + y * 256 + z) mod 256 = ((x * 256 + y) * 256 + z) mod 256"
    by (simp only: nat_split)
  also have "\<dots> = z mod 256" by (rule mod_mult_self3)
  finally show ?thesis using assms by simp
qed

lemma major_of: "unat (drop_bit 16 (VersionCode a b c)) = unat a"
proof -
  have "unat (drop_bit 16 (VersionCode a b c)) = unat (VersionCode a b c) div 2 ^ 16"
    by (simp only: unat_drop_bit_eq) (simp only: drop_bit_eq_div)
  then show ?thesis
    using unat_u8_less [of b] unat_u8_less [of c] by (simp add: unat_VersionCode)
qed

lemma minor_of: "unat (drop_bit 8 (VersionCode a b c) AND 0xff) = unat b"
proof -
  have "unat (drop_bit 8 (VersionCode a b c) AND mask 8)
          = (unat (VersionCode a b c) div 2 ^ 8) mod 2 ^ 8"
    by (simp only: unsigned_take_bit_eq unat_drop_bit_eq flip: take_bit_eq_mask)
       (simp only: drop_bit_eq_div take_bit_eq_mod)
  then show ?thesis
    using unat_u8_less [of b] unat_u8_less [of c]
    by (simp add: unat_VersionCode ff_mask nat_minor)
qed

lemma patch_of: "unat (VersionCode a b c AND 0xff) = unat c"
proof -
  have "unat (VersionCode a b c AND mask 8) = unat (VersionCode a b c) mod 2 ^ 8"
    by (simp only: unsigned_take_bit_eq flip: take_bit_eq_mask) (simp only: take_bit_eq_mod)
  then show ?thesis
    using unat_u8_less [of c] by (simp add: unat_VersionCode ff_mask nat_patch)
qed

lemma Version_String_VersionCode:
  "Version_String (VersionCode a b c)
     = fmt_dec (unat a) @ ''.'' @ fmt_dec (unat b) @ ''.'' @ fmt_dec (unat c)"
  by (simp only: Version_String_def Let_def major_of minor_of patch_of)

lemma ParseVersion_String:
  "ParseVersion (Version_String (VersionCode a b c)) = VersionCode a b c"
proof -
  have "Sscanf (fmt_dec (unat a) @ ''.'' @ fmt_dec (unat b) @ ''.'' @ fmt_dec (unat c))
          format_version [U8 0, U8 0, U8 0]
        = ([U8 (of_nat (unat a)), U8 (of_nat (unat b)), U8 (of_nat (unat c))], 3, None)"
    by (rule Sscanf_version) (rule unat_u8_less)+
  then show ?thesis
    by (simp add: ParseVersion_def Version_String_VersionCode)
qed

text \<open>
  C1. For every version built by \<^verbatim>\<open>VersionCode\<close> from three bytes, with patch below 252
  or with major and minor other than 4 and 14, the text of \<^verbatim>\<open>String\<close> is
  \<open>major.minor.patch\<close> in decimal and \<^verbatim>\<open>ParseVersion\<close> reads it back to the same
  version.
\<close>

theorem C1_ParseVersion_roundtrip:
  assumes "unat patch < 252 \<or> (major, minor) \<noteq> (4, 14)"
  shows "Version_String (VersionCode major minor patch)
           = fmt_dec (unat major) @ ''.'' @ fmt_dec (unat minor) @ ''.'' @ fmt_dec (unat patch)
         \<and> ParseVersion (Version_String (VersionCode major minor patch))
           = VersionCode major minor patch"
  by (intro conjI, rule Version_String_VersionCode, rule ParseVersion_String)

theorem C1_ParseVersion_roundtrip_witness:
  "(unat (3 :: 8 word) < 252 \<or> ((4 :: 8 word), (14 :: 8 word)) \<noteq> (4, 14))
   \<and> Version_String (VersionCode 4 14 3)
       = fmt_dec (unat (4 :: 8 word)) @ ''.'' @ fmt_dec (unat (14 :: 8 word)) @ ''.'' @ fmt_dec (unat (3 :: 8 word))
   \<and> ParseVersion (Version_String (VersionCode 4 14 3)) = VersionCode 4 14 3"
proof -
  have h: "unat (3 :: 8 word) < 252 \<or> ((4 :: 8 word), (14 :: 8 word)) \<noteq> (4, 14)" by simp
  show ?thesis using h C1_ParseVersion_roundtrip [OF h] by blast
qed

subsection \<open>\<^verbatim>\<open>ParseVersion\<close> on any text\<close>

lemma doScanf_untouched:
  "doScanf f s a n = (a', n', e) \<Longrightarrow>
     length a' = length a \<and> n \<le> n' \<and> (\<forall>i. n' \<le> i \<longrightarrow> a' ! i = a ! i)"
proof (induction f s a n rule: doScanf.induct)
  case (1 s a n)
  then show ?case by simp
next
  case (2 c f s a n)
  then show ?case by (auto split: list.splits if_splits)
next
  case (3 f s a n)
  then show ?case by (auto split: sum.splits)
next
  case (4 v f s a n)
  then show ?case by (fastforce split: sum.splits if_splits prod.splits)
qed

lemmas scan_eval =
  Sscanf_def format_version_def SkipSpace.simps space_width_def scanUint_def
  scanNumber_def num_char_def is_digit_def ParseUint_def cutoff10_def digit_val_def
  convertString_def advance_space_def skip_format_space.simps

lemma Sscanf_not_a_version:
  "Sscanf ''not-a-version'' format_version [U8 0, U8 0, U8 0]
     = ([U8 0, U8 0, U8 0], 0, Some ErrExpectedInteger)"
  by (simp add: scan_eval)

text \<open>
  C10. \<^verbatim>\<open>ParseVersion\<close> has no error result and returns a version for every string:
  the version code of the three operands as \<^verbatim>\<open>Sscanf\<close> leaves them, an operand that
  was not scanned (its index is at or beyond the count of scanned operands) being 0. For
  \<^verbatim>\<open>"not-a-version"\<close> the result is the version code of 0, 0, 0, rendered \<open>0.0.0\<close>.
\<close>

theorem C10_ParseVersion_total:
  "(\<exists>ops n err.
      Sscanf s format_version [U8 0, U8 0, U8 0] = (ops, n, err)
      \<and> ParseVersion s = VersionCode (the_u8 (ops ! 0)) (the_u8 (ops ! 1)) (the_u8 (ops ! 2))
      \<and> (\<forall>i. n \<le> i \<longrightarrow> i < 3 \<longrightarrow> the_u8 (ops ! i) = 0))
   \<and> ParseVersion ''not-a-version'' = VersionCode 0 0 0
   \<and> Version_String (ParseVersion ''not-a-version'') = ''0.0.0''"
proof -
  obtain ops n err where r: "Sscanf s format_version [U8 0, U8 0, U8 0] = (ops, n, err)"
    by (cases "Sscanf s format_version [U8 0, U8 0, U8 0]") auto
  then have d: "doScanf format_version s [U8 0, U8 0, U8 0] 0 = (ops, n, err)"
    by (simp add: Sscanf_def)
  have u: "\<forall>i. n \<le> i \<longrightarrow> ops ! i = [U8 0, U8 0, U8 0] ! i"
    using doScanf_untouched [OF d] by blast
  have z: "\<forall>i. n \<le> i \<longrightarrow> i < 3 \<longrightarrow> the_u8 (ops ! i) = 0"
  proof (intro allI impI)
    fix i :: nat assume "n \<le> i" "i < 3"
    then have "ops ! i = [U8 0, U8 0, U8 0] ! i" and "i = 0 \<or> i = 1 \<or> i = 2"
      using u by auto
    then show "the_u8 (ops ! i) = 0" by auto
  qed
  have p: "ParseVersion s = VersionCode (the_u8 (ops ! 0)) (the_u8 (ops ! 1)) (the_u8 (ops ! 2))"
    by (simp add: ParseVersion_def r)
  have n: "ParseVersion ''not-a-version'' = VersionCode 0 0 0"
    by (simp add: ParseVersion_def Sscanf_not_a_version)
  have t: "Version_String (VersionCode 0 0 0) = ''0.0.0''"
    by code_simp
  show ?thesis using r p z n t by auto
qed

lemma Sscanf_7x:
  "Sscanf ''7.x'' format_version [U8 0, U8 0, U8 0]
     = ([U8 7, U8 0, U8 0], 1, Some ErrExpectedInteger)"
  by (simp add: scan_eval)

theorem C10_ParseVersion_total_witness:
  "ParseVersion ''7.x'' = VersionCode 7 0 0"
proof -
  obtain ops n err where
    r: "Sscanf ''7.x'' format_version [U8 0, U8 0, U8 0] = (ops, n, err)"
    and p: "ParseVersion ''7.x'' = VersionCode (the_u8 (ops ! 0)) (the_u8 (ops ! 1)) (the_u8 (ops ! 2))"
    and z: "\<forall>i. n \<le> i \<longrightarrow> i < 3 \<longrightarrow> the_u8 (ops ! i) = 0"
    using C10_ParseVersion_total [of "''7.x''"] by blast
  have n: "n = 1" and o: "ops ! 0 = U8 7" using r unfolding Sscanf_7x by auto
  have "the_u8 (ops ! 1) = 0" and "the_u8 (ops ! 2) = 0" using z n by simp_all
  then show ?thesis using p o by simp
qed

subsection \<open>The release pattern and the clamp\<close>

lemma star_k_Digit_run:
  assumes "\<forall>c \<in> set ds. is_digit c" and "r = [] \<or> \<not> is_digit (hd r)" and "k r = Some x"
  shows "star_k Digit (ds @ r) k = Some x"
  using assms(1)
proof (induction ds)
  case Nil
  have "step Digit r = None" using assms(2) by (cases r) (auto simp: step_def)
  then show ?case using assms(3) by (subst star_k.simps) simp
next
  case (Cons d ds)
  then have "step Digit ((d # ds) @ r) = Some (ds @ r)" by (simp add: step_def)
  moreover have "star_k Digit (ds @ r) k = Some x" using Cons by simp
  ultimately show ?case by (subst star_k.simps) simp
qed

lemma plus_Digit_run:
  assumes "ds \<noteq> []" and "\<forall>c \<in> set ds. is_digit c" and "r = [] \<or> \<not> is_digit (hd r)"
    and "k r c = Some x"
  shows "match (Plus Digit) (ds @ r) c k = Some x"
proof -
  obtain d ds' where d: "ds = d # ds'" using assms(1) by (cases ds) auto
  then have s: "step Digit (ds @ r) = Some (ds' @ r)" using assms(2) by (simp add: step_def)
  have "star_k Digit (ds' @ r) (\<lambda>s''. k s'' c) = Some x"
    using assms(2,3,4) d by (intro star_k_Digit_run) auto
  then show ?thesis using s by simp
qed

lemma star_k_AnyChar_end:
  "CHR 0x0A \<notin> set s \<Longrightarrow> star_k AnyChar s (\<lambda>s'. if s' = [] then g s' else None) = g []"
proof (induction s rule: length_induct)
  case (1 s)
  show ?case
  proof (cases s)
    case Nil
    then show ?thesis by (subst star_k.simps) (simp add: step_def)
  next
    case (Cons c cs)
    let ?s' = "drop (rune_width s) s"
    have st: "step AnyChar s = Some ?s'" using Cons 1(2) by (auto simp: step_def)
    have len: "length ?s' < length s" using st by (rule step_shorter)
    have "CHR 0x0A \<notin> set ?s'" using 1(2) by (meson in_set_dropD)
    then have ih: "star_k AnyChar ?s' (\<lambda>s'. if s' = [] then g s' else None) = g []"
      using 1(1) len by blast
    show ?thesis using st ih Cons
      by (subst star_k.simps) (simp split: option.split)
  qed
qed


lemma rune_width_ascii: "(of_char c :: nat) < 0x80 \<Longrightarrow> rune_width (c # s) = 1"
  by (simp add: rune_width_def)

lemma caps4: "replicate 4 ([]::string) = [[], [], [], []]"
  by (simp add: eval_nat_numeral)

lemma releasePattern_three:
  assumes d1: "ds1 \<noteq> []" "\<forall>c \<in> set ds1. is_digit c"
    and d2: "ds2 \<noteq> []" "\<forall>c \<in> set ds2. is_digit c"
    and d3: "ds3 \<noteq> []" "\<forall>c \<in> set ds3. is_digit c"
    and sep: "(of_char sep :: nat) < 0x80" "sep \<noteq> CHR 0x0A" "\<not> is_digit sep"
    and rest: "CHR 0x0A \<notin> set rest" "rest = [] \<or> \<not> is_digit (hd rest)"
  shows "FindStringSubmatch releasePattern (ds1 @ CHR ''.'' # ds2 @ sep # ds3 @ rest)
           = [ds1 @ CHR ''.'' # ds2 @ sep # ds3 @ rest, ds1, ds2, ds3]"
proof -
  let ?t3 = "ds3 @ rest"
  let ?t2 = "ds2 @ sep # ?t3"
  let ?s = "ds1 @ CHR ''.'' # ?t2"
  let ?R4 = "Seq (Star AnyChar) Eol"
  let ?A = "Seq (One AnyChar) (Grp 3 (Plus Digit))"
  let ?R3 = "Seq (Opt ?A) ?R4"
  let ?R2 = "Seq (Grp 2 (Plus Digit)) ?R3"
  let ?R1 = "Seq (One (Ch CHR ''.'')) ?R2"
  let ?R0 = "Seq (Grp 1 (Plus Digit)) ?R1"
  have r4: "match ?R4 rest c k = k [] c" for c and k :: "string \<Rightarrow> string list \<Rightarrow> string list option"
    using star_k_AnyChar_end [OF rest(1), of "\<lambda>s'. k s' c"] by simp
  have g3: "match (Grp 3 (Plus Digit)) ?t3 c (\<lambda>s c. match ?R4 s c k) = Some x"
    if "k [] (c[3 := ds3]) = Some x" for c x and k :: "string \<Rightarrow> string list \<Rightarrow> string list option"
    unfolding match.simps(6)
    by (rule plus_Digit_run [OF d3 rest(2)]) (simp add: r4 that del: match.simps)
  have st: "step AnyChar (sep # ?t3) = Some ?t3"
    using sep by (simp add: step_def rune_width_ascii)
  have r3: "match ?R3 (sep # ?t3) c k = Some x"
    if "k [] (c[3 := ds3]) = Some x" for c x and k :: "string \<Rightarrow> string list \<Rightarrow> string list option"
    using g3 [where k=k and c=c and x=x, OF that] st by (simp del: match.simps(3,6))
  have nd: "sep # ?t3 = [] \<or> \<not> is_digit (hd (sep # ?t3))" using sep by simp
  have r2: "match ?R2 ?t2 c k = Some x"
    if "k [] (c[2 := ds2, 3 := ds3]) = Some x" for c x and k :: "string \<Rightarrow> string list \<Rightarrow> string list option"
    unfolding match.simps(4) [of "Grp 2 (Plus Digit)"] match.simps(6)
    by (rule plus_Digit_run [OF d2 nd]) (simp add: r3 that del: match.simps)
  have r1: "match ?R1 (CHR ''.'' # ?t2) c k = Some x"
    if "k [] (c[2 := ds2, 3 := ds3]) = Some x" for c x and k :: "string \<Rightarrow> string list \<Rightarrow> string list option"
    using r2 [where k=k and c=c and x=x, OF that] by (simp add: step_def del: match.simps(3,6))
  have nd1: "CHR ''.'' # ?t2 = [] \<or> \<not> is_digit (hd (CHR ''.'' # ?t2))"
    by (simp add: is_digit_def)
  have r0: "match ?R0 ?s c k = Some x"
    if "k [] (c[1 := ds1, 2 := ds2, 3 := ds3]) = Some x" for c x and k :: "string \<Rightarrow> string list \<Rightarrow> string list option"
    unfolding match.simps(4) [of "Grp 1 (Plus Digit)"] match.simps(6)
    by (rule plus_Digit_run [OF d1 nd1], simp del: match.simps, rule r1) (use that in simp)
  have b: "body releasePattern = ?R0"
    by (simp add: releasePattern_def)
  have "match_here (body releasePattern) 3 ?s = Some [?s, ds1, ds2, ds3]"
    unfolding match_here_def b
    by (rule r0) (simp add: eval_nat_numeral)
  then show ?thesis
    by (simp add: FindStringSubmatch_def releasePattern_def)
qed


lemma ParseUint_loop_8_range:
  "255 < p \<Longrightarrow> ParseUint_loop 255 (fmt_dec p) 0 = (255, Some ErrRange)"
proof (induction p rule: fmt_dec.induct)
  case (1 n)
  have big: "\<not> n < 10" using 1(2) by simp
  show ?case
  proof (cases "255 < n div 10")
    case True
    then have "ParseUint_loop 255 (fmt_dec (n div 10)) 0 = (255, Some ErrRange)"
      using 1(1) big by simp
    then show ?thesis using big
      by (subst fmt_dec.simps) (simp add: ParseUint_loop_append)
  next
    case False
    then have le: "n div 10 \<le> 255" by simp
    have pre: "ParseUint_loop 255 (fmt_dec (n div 10)) 0 = (n div 10, None)"
      using le by (intro ParseUint_loop_fmt_dec) simp_all
    have c: "n div 10 < cutoff10" using le by (simp add: cutoff10_def)
    have lt: "n < 2 ^ 64" using le by simp
    have m: "(n div 10 * 10 + n mod 10) mod 2 ^ 64 = n" using lt by simp
    show ?thesis using big pre c m 1(2)
      by (subst fmt_dec.simps)
         (simp add: ParseUint_loop_append is_digit_digit_char digit_val_digit_char Let_def)
  qed
qed

lemma ParseUint_8_fmt_dec: "fst (ParseUint (fmt_dec p) 8) = min p 255"
proof (cases "p \<le> 255")
  case True
  then have "ParseUint_loop 255 (fmt_dec p) 0 = (p, None)"
    by (intro ParseUint_loop_fmt_dec) simp_all
  then show ?thesis using True by (simp add: ParseUint_def fmt_dec_nonempty)
next
  case False
  then have "ParseUint_loop 255 (fmt_dec p) 0 = (255, Some ErrRange)"
    by (intro ParseUint_loop_8_range) simp
  then show ?thesis using False by (simp add: ParseUint_def fmt_dec_nonempty)
qed

lemma ParseUint_4: "ParseUint ''4'' 8 = (4, None)"
  by (simp add: ParseUint_def is_digit_def digit_val_def cutoff10_def)

lemma ParseUint_14: "ParseUint ''14'' 8 = (14, None)"
  by (simp add: ParseUint_def is_digit_def digit_val_def cutoff10_def)

lemma release_4_14:
  assumes "CHR 0x0A \<notin> set rest" and "rest = [] \<or> \<not> is_digit (hd rest)"
  shows "FindStringSubmatch releasePattern (''4.14.'' @ fmt_dec p @ rest)
           = [''4.14.'' @ fmt_dec p @ rest, ''4'', ''14'', fmt_dec p]"
  using releasePattern_three [of "''4''" "''14''" "fmt_dec p" "CHR ''.''" rest] assms
    fmt_dec_digits [of p] fmt_dec_nonempty [of p]
  by (simp add: is_digit_def)

lemma kernelVersion_4_14:
  assumes "252 \<le> p" and "CHR 0x0A \<notin> set rest" and "rest = [] \<or> \<not> is_digit (hd rest)"
  shows "kernelVersionFromReleaseString (''4.14.'' @ fmt_dec p @ rest) = Inr (VersionCode 4 14 255)"
proof -
  have m: "min p 255 \<ge> 252" using assms(1) by simp
  have v: "VersionCode 4 14 255 = 265983" by (simp add: VersionCode_def)
  show ?thesis
    unfolding kernelVersionFromReleaseString_def release_4_14 [OF assms(2,3)] v
    using m by (simp add: ParseUint_4 ParseUint_14 ParseUint_8_fmt_dec Let_def)
qed

lemma Sscanf_4_14:
  assumes "p < 256"
  shows "Sscanf (''4.14.'' @ fmt_dec p) format_version [U8 0, U8 0, U8 0]
          = ([U8 4, U8 14, U8 (of_nat p)], 3, None)"
proof -
  have f4: "fmt_dec 4 = ''4''" and f14: "fmt_dec 14 = ''14''" by code_simp+
  show ?thesis
    using Sscanf_version [of 4 14 p 0 0 0] assms by (simp add: f4 f14)
qed

text \<open>
  C2, as amended. For a release string \<open>4.14.p\<close> with \<open>p \<ge> 252\<close> (followed by
  nothing or by text that does not start with a digit and has no newline),
  \<^verbatim>\<open>kernelVersionFromReleaseString\<close> returns the version code of 4, 14, 255, whose
  patch component is 255. \<^verbatim>\<open>ParseVersion\<close> does not clamp: for \<open>252 \<le> p < 256\<close>
  the patch component of \<^verbatim>\<open>ParseVersion "4.14.p"\<close> is \<open>p\<close>.
\<close>

theorem C2_clamp_in_release_string_only:
  assumes "252 \<le> p" and "CHR 0x0A \<notin> set rest" and "rest = [] \<or> \<not> is_digit (hd rest)"
  shows "kernelVersionFromReleaseString (''4.14.'' @ fmt_dec p @ rest) = Inr (VersionCode 4 14 255)
         \<and> unat (VersionCode 4 14 255 AND 0xff) = 255
         \<and> (p < 256 \<longrightarrow>
              ParseVersion (''4.14.'' @ fmt_dec p) = VersionCode 4 14 (of_nat p)
              \<and> unat (ParseVersion (''4.14.'' @ fmt_dec p) AND 0xff) = p)"
proof (intro conjI impI)
  show "kernelVersionFromReleaseString (''4.14.'' @ fmt_dec p @ rest) = Inr (VersionCode 4 14 255)"
    using assms by (rule kernelVersion_4_14)
  show "unat (VersionCode 4 14 255 AND 0xff) = 255"
    by (simp add: patch_of)
  assume p: "p < 256"
  show pv: "ParseVersion (''4.14.'' @ fmt_dec p) = VersionCode 4 14 (of_nat p)"
    unfolding ParseVersion_def Sscanf_4_14 [OF p] by simp
  have "unat (of_nat p :: 8 word) = p" using p by (simp add: unat_of_nat)
  then show "unat (ParseVersion (''4.14.'' @ fmt_dec p) AND 0xff) = p"
    unfolding pv patch_of .
qed

theorem C2_clamp_in_release_string_only_witness:
  "kernelVersionFromReleaseString ''4.14.252-generic'' = Inr (VersionCode 4 14 255)
   \<and> ParseVersion ''4.14.252'' = VersionCode 4 14 252"
proof -
  have f: "fmt_dec 252 = ''252''" by code_simp
  have h: "(252::nat) \<le> 252" "CHR 0x0A \<notin> set ''-generic''"
    "''-generic'' = [] \<or> \<not> is_digit (hd ''-generic'')"
    by (simp_all add: is_digit_def)
  show ?thesis
    using C2_clamp_in_release_string_only [OF h] by (simp add: f)
qed

text \<open>
  The claim C2 as stated fails for \<^verbatim>\<open>ParseVersion\<close>: the patch component of
  \<^verbatim>\<open>ParseVersion "4.14.252"\<close> is 252.
\<close>

theorem C2_ParseVersion_no_clamp:
  "unat (ParseVersion ''4.14.252'' AND 0xff) = 252
   \<and> unat (ParseVersion ''4.14.252'' AND 0xff) \<noteq> 255"
proof -
  have "Sscanf ''4.14.252'' format_version [U8 0, U8 0, U8 0] = ([U8 4, U8 14, U8 252], 3, None)"
    by (simp add: scan_eval)
  then have "ParseVersion ''4.14.252'' = VersionCode 4 14 252"
    by (simp add: ParseVersion_def)
  then show ?thesis by (simp add: patch_of)
qed

subsection \<open>Release strings on examples\<close>

lemma caps2: "replicate 2 ([]::string) = [[], []]"
  by (simp add: eval_nat_numeral)

lemmas re_eval =
  FindStringSubmatch_def match_here_def search.simps star_k.simps step_def rune_width_def
  cont_byte_def is_digit_def releasePattern_def debianVersionRegex_def lit_def caps4 caps2

lemmas num_eval = ParseUint_def cutoff10_def digit_val_def is_digit_def Let_def

lemma release_5_15_0:
  "kernelVersionFromReleaseString ''5.15.0-76-generic'' = Inr (VersionCode 5 15 0)"
proof -
  have m: "FindStringSubmatch releasePattern ''5.15.0-76-generic''
             = [''5.15.0-76-generic'', ''5'', ''15'', ''0'']"
    by (simp add: re_eval)
  show ?thesis
    unfolding kernelVersionFromReleaseString_def m
    by (simp add: num_eval VersionCode_def)
qed

lemma release_not_a_version:
  "kernelVersionFromReleaseString ''not-a-version'' = Inl (ErrInvalidRelease ''not-a-version'')"
  by (simp add: kernelVersionFromReleaseString_def re_eval)

lemma release_5_15:
  "kernelVersionFromReleaseString ''5.15'' = Inr (VersionCode 5 15 0)"
proof -
  have m: "FindStringSubmatch releasePattern ''5.15'' = [''5.15'', ''5'', ''15'', []]"
    by (simp add: re_eval)
  show ?thesis
    unfolding kernelVersionFromReleaseString_def m
    by (simp add: num_eval VersionCode_def)
qed

text \<open>
  C8. The release string \<^verbatim>\<open>"5.15-76-generic"\<close> has no patch component after
  \<open>5.15\<close>, yet \<^verbatim>\<open>kernelVersionFromReleaseString\<close> returns the version code of 5, 15,
  76: the unescaped dot of the pattern matches the hyphen and the build number is taken as
  the patch.
\<close>

theorem C8_patch_taken_from_build_suffix:
  "kernelVersionFromReleaseString ''5.15-76-generic'' = Inr (VersionCode 5 15 76)
   \<and> unat (VersionCode 5 15 76 AND 0xff) = 76"
proof -
  have m: "FindStringSubmatch releasePattern ''5.15-76-generic''
             = [''5.15-76-generic'', ''5'', ''15'', ''76'']"
    by (simp add: re_eval)
  have "kernelVersionFromReleaseString ''5.15-76-generic'' = Inr (VersionCode 5 15 76)"
    unfolding kernelVersionFromReleaseString_def m
    by (simp add: num_eval VersionCode_def)
  then show ?thesis by (simp add: patch_of)
qed

subsection \<open>Resolution of the host version\<close>

lemma Trim_utsnameStr:
  assumes "CHR 0x00 \<notin> set s"
  shows "Trim_nul (utsnameStr (s @ replicate n (CHR 0x00))) = s"
proof -
  have "takeWhile (\<lambda>c. c \<noteq> CHR 0x00) (s @ replicate n (CHR 0x00))
          = s @ takeWhile (\<lambda>c. c \<noteq> CHR 0x00) (replicate n (CHR 0x00))"
    by (rule takeWhile_append2) (use assms in auto)
  moreover have "takeWhile (\<lambda>c. c \<noteq> CHR 0x00) (replicate n (CHR 0x00)) = []"
    by (cases n) auto
  ultimately have tw: "takeWhile (\<lambda>c. c \<noteq> CHR 0x00) (s @ replicate n (CHR 0x00)) = s"
    by simp
  have d1: "dropWhile (\<lambda>c. c = CHR 0x00) (replicate m (CHR 0x00) @ s) = s" for m
    using assms by (cases s) (auto simp: dropWhile_append)
  have d2: "dropWhile (\<lambda>c. c = CHR 0x00) (rev s) = rev s"
    using assms by (cases "rev s") (auto simp: dropWhile_eq_self_iff)
  show ?thesis
    by (simp only: Trim_nul_def utsnameStr_def tw d1 d2 rev_rev_ident)
qed

lemma ubuntu_on_host_ubuntu:
  "currentVersionUbuntu host_ubuntu = (Inr (VersionCode 6 2 16), [PReadFile ''/proc/version_signature''])"
proof -
  have s: "Sscanf (''Ubuntu 6.2.0-33.33~22.04.1-generic 6.2.16'' @ [CHR 0x0A]) format_signature
             [Str [], Str [], Str []]
           = ([Str ''Ubuntu'', Str ''6.2.0-33.33~22.04.1-generic'', Str ''6.2.16''], 3, None)"
    by (simp add: scan_eval format_signature_def)
  have m: "FindStringSubmatch releasePattern ''6.2.16'' = [''6.2.16'', ''6'', ''2'', ''16'']"
    by (simp add: re_eval)
  have k: "kernelVersionFromReleaseString ''6.2.16'' = Inr (VersionCode 6 2 16)"
    unfolding kernelVersionFromReleaseString_def m by (simp add: num_eval VersionCode_def)
  show ?thesis
    unfolding currentVersionUbuntu_def host_ubuntu_def parseUbuntuVersion_def
    by (simp add: s [simplified] k)
qed

lemma debian_on_host_debian:
  "currentVersionDebian host_debian = (Inr (VersionCode 5 10 46), [PReadFile ''/proc/version''])"
proof -
  have f: "FindStringSubmatch debianVersionRegex
             (''Linux version 5.10.0-8-amd64 #1 SMP Debian 5.10.46-4 (2021-08-03)'' @ [CHR 0x0A])
           = [''Linux version 5.10.0-8-amd64 #1 SMP Debian 5.10.46-4 (2021-08-03)'', ''5.10.46-4'']"
    by (simp add: re_eval)
  have m: "FindStringSubmatch releasePattern ''5.10.46-4'' = [''5.10.46-4'', ''5'', ''10'', ''46'']"
    by (simp add: re_eval)
  have k: "kernelVersionFromReleaseString ''5.10.46-4'' = Inr (VersionCode 5 10 46)"
    unfolding kernelVersionFromReleaseString_def m by (simp add: num_eval VersionCode_def)
  show ?thesis
    unfolding currentVersionDebian_def host_debian_def parseDebianVersion_def
    by (simp add: f [simplified] k)
qed

lemma debian_on_host_generic:
  "currentVersionDebian host_generic
     = (Inl (ErrParseProcVersion (''Linux version 5.15.0 #1 SMP PREEMPT'' @ [CHR 0x0A])),
        [PReadFile ''/proc/version''])"
proof -
  have f: "FindStringSubmatch debianVersionRegex (''Linux version 5.15.0 #1 SMP PREEMPT'' @ [CHR 0x0A]) = []"
    by (simp add: re_eval)
  show ?thesis
    unfolding currentVersionDebian_def host_generic_def parseDebianVersion_def
    by (simp add: f [simplified])
qed

lemma uname_on_host_generic:
  "currentVersionUname host_generic = (Inr (VersionCode 5 15 0), [PUname])"
proof -
  have t: "Trim_nul (utsnameStr (''5.15.0-76-generic'' @ replicate 48 (CHR 0x00))) = ''5.15.0-76-generic''"
    by (rule Trim_utsnameStr) simp
  show ?thesis
    unfolding currentVersionUname_def host_generic_def
    by (simp only: host.simps option.case t release_5_15_0)
qed

lemma uname_on_host_zero:
  "currentVersionUname host_zero = (Inr 0, [PUname])"
proof -
  have t: "Trim_nul (utsnameStr (''0.0.0'' @ replicate 60 (CHR 0x00))) = ''0.0.0''"
    by (rule Trim_utsnameStr) simp
  have m: "FindStringSubmatch releasePattern ''0.0.0'' = [''0.0.0'', ''0'', ''0'', ''0'']"
    by (simp add: re_eval)
  have k: "kernelVersionFromReleaseString ''0.0.0'' = Inr 0"
    unfolding kernelVersionFromReleaseString_def m by (simp add: num_eval)
  show ?thesis
    unfolding currentVersionUname_def host_zero_def
    by (simp only: host.simps option.case t k)
qed


lemma ubuntu_on_host_debian:
  "currentVersionUbuntu host_debian
     = (Inl (ErrReadFile ''/proc/version_signature''), [PReadFile ''/proc/version_signature''])"
  by (simp add: currentVersionUbuntu_def host_debian_def)

lemma ubuntu_on_host_generic:
  "currentVersionUbuntu host_generic
     = (Inl (ErrReadFile ''/proc/version_signature''), [PReadFile ''/proc/version_signature''])"
  by (simp add: currentVersionUbuntu_def host_generic_def)

lemma strategies_on_host_unknown:
  "currentVersionUbuntu host_unknown
     = (Inl (ErrReadFile ''/proc/version_signature''), [PReadFile ''/proc/version_signature''])"
  "currentVersionDebian host_unknown = (Inl ErrReadProcVersion, [PReadFile ''/proc/version''])"
  "currentVersionUname host_unknown = (Inl ErrUname, [PUname])"
  by (simp_all add: currentVersionUbuntu_def currentVersionDebian_def currentVersionUname_def
        host_unknown_def)

lemma strategies_on_host_zero:
  "currentVersionUbuntu host_zero
     = (Inl (ErrReadFile ''/proc/version_signature''), [PReadFile ''/proc/version_signature''])"
  "currentVersionDebian host_zero = (Inl ErrReadProcVersion, [PReadFile ''/proc/version''])"
  by (simp_all add: currentVersionUbuntu_def currentVersionDebian_def host_zero_def)

lemma strategy_probes:
  "snd (currentVersionUbuntu h) = [PReadFile ''/proc/version_signature'']"
  "snd (currentVersionDebian h) = [PReadFile ''/proc/version'']"
  "snd (currentVersionUname h) = [PUname]"
  by (simp_all add: currentVersionUbuntu_def currentVersionDebian_def currentVersionUname_def)

text \<open>
  C6. \<^verbatim>\<open>CurrentKernelVersion\<close> reads the Ubuntu signature file first and returns its
  version when that succeeds, without another probe; when it fails the Debian banner is
  read next and its version returned when that succeeds; when both fail the result is
  that of the \<^verbatim>\<open>uname\<close> strategy. The result is an error only when all three strategies
  fail.
\<close>

theorem C6_resolution_order:
  "(\<forall>v. fst (currentVersionUbuntu h) = Inr v \<longrightarrow>
        CurrentKernelVersion h = (Inr v, [PReadFile ''/proc/version_signature'']))
   \<and> (\<forall>e v. fst (currentVersionUbuntu h) = Inl e \<longrightarrow> fst (currentVersionDebian h) = Inr v \<longrightarrow>
        CurrentKernelVersion h
          = (Inr v, [PReadFile ''/proc/version_signature'', PReadFile ''/proc/version'']))
   \<and> (\<forall>e e'. fst (currentVersionUbuntu h) = Inl e \<longrightarrow> fst (currentVersionDebian h) = Inl e' \<longrightarrow>
        CurrentKernelVersion h
          = (fst (currentVersionUname h),
             [PReadFile ''/proc/version_signature'', PReadFile ''/proc/version'', PUname]))
   \<and> ((\<exists>err. fst (CurrentKernelVersion h) = Inl err) \<longleftrightarrow>
        (\<exists>e. fst (currentVersionUbuntu h) = Inl e) \<and> (\<exists>e. fst (currentVersionDebian h) = Inl e)
        \<and> (\<exists>e. fst (currentVersionUname h) = Inl e))"
proof -
  obtain r1 t1 where u: "currentVersionUbuntu h = (r1, t1)" by (cases "currentVersionUbuntu h")
  obtain r2 t2 where d: "currentVersionDebian h = (r2, t2)" by (cases "currentVersionDebian h")
  obtain r3 t3 where n: "currentVersionUname h = (r3, t3)" by (cases "currentVersionUname h")
  have t: "t1 = [PReadFile ''/proc/version_signature'']" "t2 = [PReadFile ''/proc/version'']"
    "t3 = [PUname]"
    using strategy_probes [of h] u d n by simp_all
  show ?thesis
    unfolding CurrentKernelVersion_def u d n t
    by (cases r1; cases r2; cases r3) simp_all
qed

theorem C6_resolution_order_witness:
  "CurrentKernelVersion host_ubuntu
     = (Inr (VersionCode 6 2 16), [PReadFile ''/proc/version_signature''])
   \<and> CurrentKernelVersion host_debian
     = (Inr (VersionCode 5 10 46), [PReadFile ''/proc/version_signature'', PReadFile ''/proc/version''])
   \<and> CurrentKernelVersion host_generic
     = (Inr (VersionCode 5 15 0),
        [PReadFile ''/proc/version_signature'', PReadFile ''/proc/version'', PUname])
   \<and> (\<exists>err. fst (CurrentKernelVersion host_unknown) = Inl err)"
proof -
  have a: "CurrentKernelVersion host_ubuntu
             = (Inr (VersionCode 6 2 16), [PReadFile ''/proc/version_signature''])"
    using C6_resolution_order [of host_ubuntu] by (simp add: ubuntu_on_host_ubuntu)
  have b: "CurrentKernelVersion host_debian
             = (Inr (VersionCode 5 10 46),
                [PReadFile ''/proc/version_signature'', PReadFile ''/proc/version''])"
    using C6_resolution_order [of host_debian]
    by (simp add: ubuntu_on_host_debian debian_on_host_debian)
  have c: "CurrentKernelVersion host_generic
             = (Inr (VersionCode 5 15 0),
                [PReadFile ''/proc/version_signature'', PReadFile ''/proc/version'', PUname])"
    using C6_resolution_order [of host_generic]
    by (simp add: ubuntu_on_host_generic debian_on_host_generic uname_on_host_generic)
  have d: "\<exists>err. fst (CurrentKernelVersion host_unknown) = Inl err"
    using C6_resolution_order [of host_unknown]
    by (simp add: strategies_on_host_unknown)
  show ?thesis using a b c d by blast
qed

lemma CurrentKernelVersion_host_zero:
  "CurrentKernelVersion host_zero
     = (Inr 0, [PReadFile ''/proc/version_signature'', PReadFile ''/proc/version'', PUname])"
  by (simp add: CurrentKernelVersion_def strategies_on_host_zero uname_on_host_zero)

lemma CurrentKernelVersion_host_generic:
  "CurrentKernelVersion host_generic
     = (Inr (VersionCode 5 15 0),
        [PReadFile ''/proc/version_signature'', PReadFile ''/proc/version'', PUname])"
  by (simp add: CurrentKernelVersion_def ubuntu_on_host_generic debian_on_host_generic
        uname_on_host_generic)

text \<open>
  C7, as amended. After a call of \<^verbatim>\<open>HostVersion\<close> that returned a version other than 0
  without error, the package variable holds that version, and every later call, on any
  host, returns it without error, leaves the variable as it is and makes no probe.
\<close>

theorem C7_HostVersion_cached:
  assumes "HostVersion h hv = ((v, None), hv', t)" and "v \<noteq> 0"
  shows "hv' = v \<and> (\<forall>h'. HostVersion h' hv' = ((v, None), hv', []))"
proof -
  have "hv' = v"
    using assms(1)
    by (auto simp: HostVersion_def split: if_splits prod.splits sum.splits)
  then show ?thesis using assms(2) by (simp add: HostVersion_def)
qed

lemma VersionCode_5_15_0: "VersionCode 5 15 0 = 331520"
  by (simp add: VersionCode_def)

theorem C7_HostVersion_cached_witness:
  "HostVersion host_generic 0
     = ((VersionCode 5 15 0, None), VersionCode 5 15 0,
        [PReadFile ''/proc/version_signature'', PReadFile ''/proc/version'', PUname])
   \<and> VersionCode 5 15 0 \<noteq> 0
   \<and> HostVersion host_unknown (VersionCode 5 15 0)
     = ((VersionCode 5 15 0, None), VersionCode 5 15 0, [])"
proof -
  have a: "HostVersion host_generic 0
             = ((VersionCode 5 15 0, None), VersionCode 5 15 0,
                [PReadFile ''/proc/version_signature'', PReadFile ''/proc/version'', PUname])"
    by (simp add: HostVersion_def CurrentKernelVersion_host_generic)
  have b: "VersionCode 5 15 0 \<noteq> 0" by (simp add: VersionCode_5_15_0)
  show ?thesis using a b C7_HostVersion_cached [OF a b] by blast
qed

text \<open>
  The claim C7 as stated fails when the resolved version is 0: on a host whose release is
  \<open>0.0.0\<close> the first call succeeds with version 0, the variable stays 0, and the next
  call probes again; on another host it returns another version.
\<close>

theorem C7_version_zero_not_cached:
  "HostVersion host_zero 0
     = ((0, None), 0, [PReadFile ''/proc/version_signature'', PReadFile ''/proc/version'', PUname])
   \<and> HostVersion host_generic 0
     = ((VersionCode 5 15 0, None), VersionCode 5 15 0,
        [PReadFile ''/proc/version_signature'', PReadFile ''/proc/version'', PUname])
   \<and> VersionCode 5 15 0 \<noteq> 0"
  by (simp add: HostVersion_def CurrentKernelVersion_host_zero CurrentKernelVersion_host_generic
        VersionCode_5_15_0)

end
